theory Spec2Isabelle
  imports Main "HOL-Library.Multiset"
begin

section \<open>Values exchanged with the client and the database\<close>

text \<open>
  The handlers of \<^verbatim>\<open>Server.js\<close> read the fields of a parsed JSON body and pass them
  to the database as query parameters. A field that the body does not have reads as
  \<^verbatim>\<open>undefined\<close>. Numbers are the integers; strings are lists of 8-bit characters.
\<close>

datatype jsval = JUndefined | JNull | JBool bool | JNum int | JStr string

text \<open>The test \<^verbatim>\<open>!v\<close> of JavaScript is \<open>\<not> truthy v\<close>.\<close>

fun truthy :: "jsval \<Rightarrow> bool" where
  "truthy JUndefined = False"
| "truthy JNull = False"
| "truthy (JBool b) = b"
| "truthy (JNum n) = (n \<noteq> 0)"
| "truthy (JStr s) = (s \<noteq> [])"

text \<open>A query parameter that is \<^verbatim>\<open>undefined\<close> is sent to the database as NULL.\<close>

fun sql_param :: "jsval \<Rightarrow> jsval" where
  "sql_param JUndefined = JNull"
| "sql_param v = v"

text \<open>
  The comparison \<^verbatim>\<open>column = ?\<close> of a WHERE clause: NULL equals nothing, and two
  values that are not NULL are compared as values. The conversions and the collation
  that the database engine adds to this are not modelled.
\<close>

definition sql_eq :: "jsval \<Rightarrow> jsval \<Rightarrow> bool" where
  "sql_eq col p = (col \<noteq> JNull \<and> sql_param p \<noteq> JNull \<and> col = sql_param p)"

text \<open>The text a value contributes to a template literal \<^verbatim>\<open>`... ${v} ...`\<close>.\<close>

fun show_nat :: "nat \<Rightarrow> string" where
  "show_nat n =
     (if n < 10 then [char_of (48 + n)]
      else show_nat (n div 10) @ [char_of (48 + n mod 10)])"

definition show_int :: "int \<Rightarrow> string" where
  "show_int i = (if i < 0 then CHR ''-'' # show_nat (nat (- i)) else show_nat (nat i))"

fun to_string :: "jsval \<Rightarrow> string" where
  "to_string JUndefined = ''undefined''"
| "to_string JNull = ''null''"
| "to_string (JBool b) = (if b then ''true'' else ''false'')"
| "to_string (JNum n) = show_int n"
| "to_string (JStr s) = s"

section \<open>The tables\<close>

record user =
  user_id :: nat
  username :: jsval
  password :: jsval
  email :: jsval
  first_name :: jsval
  last_name :: jsval
  user_type :: string

record parent =
  parent_id :: nat
  phone_number :: jsval
  address :: jsval

record teacher =
  teacher_id :: nat
  subject_specialization :: jsval
  hire_date :: nat

record registration_request =
  request_id :: nat
  student_name :: jsval
  parent_name :: jsval
  parent_email :: jsval
  student_dob :: jsval
  grade_level :: jsval
  class_id :: jsval
  status :: string
  requested_at :: nat
  processed_at :: "nat option"

record student =
  student_id :: nat
  s_student_name :: jsval
  s_parent_id :: "nat option"
  s_parent_name :: jsval
  s_parent_email :: jsval
  s_student_dob :: jsval
  s_grade_level :: jsval
  s_class_id :: jsval

record notification =
  notification_id :: nat
  n_user_id :: nat
  title :: string
  message :: string
  notification_type :: string
  is_read :: bool
  created_at :: nat

record db =
  users :: "user list"
  parents :: "parent list"
  teachers :: "teacher list"
  registration_requests :: "registration_request list"
  students :: "student list"
  notifications :: "notification list"

text \<open>
  Modelled from the spec: the table declarations are not part of the source. The spec
  gives every record an identifier, a RegistrationRequest the initial status
  \<^verbatim>\<open>pending\<close>, a submission timestamp and a processed timestamp that is null until
  the request is processed, and a Notification a read flag and a creation timestamp.
  The INSERT statements of the source set none of these columns, so the model fills
  them as the spec describes them: the key is the next number after the keys in the
  table, the timestamps are the time of the statement, the read flag starts false.
\<close>

definition next_id :: "nat list \<Rightarrow> nat" where
  "next_id ids = Suc (fold max ids 0)"

definition default_status :: string where
  "default_status = ''pending''"

section \<open>Responses and failures\<close>

datatype error = StorageError nat | TypeError | HashError

datatype reply =
    Message string
  | Failure string error
  | InvalidUserType "string list" jsval
  | RequestRows "registration_request list"
  | NotificationRows "notification list"

datatype response = Response (status_code: nat) (payload: reply)

text \<open>
  Every \<^verbatim>\<open>await pool.query(...)\<close> may reject. A handler takes \<open>fails\<close>, which
  says for each of its storage calls, numbered in program order from 0, whether that
  call rejects; \<open>now\<close> is the time \<^verbatim>\<open>NOW()\<close> reads.
\<close>

type_synonym faults = "nat \<Rightarrow> bool"

section \<open>The registration workflow\<close>

subsection \<open>POST /api/registration-request\<close>

definition insert_request :: "db \<Rightarrow> nat \<Rightarrow> (string \<Rightarrow> jsval) \<Rightarrow> db" where
  "insert_request d now b =
     d\<lparr>registration_requests := registration_requests d @
        [\<lparr>request_id = next_id (map request_id (registration_requests d)),
          student_name = sql_param (b ''student_name''),
          parent_name = sql_param (b ''parent_name''),
          parent_email = sql_param (b ''parent_email''),
          student_dob = sql_param (b ''student_dob''),
          grade_level = sql_param (b ''grade_level''),
          class_id = sql_param (b ''class_id''),
          status = default_status,
          requested_at = now,
          processed_at = None\<rparr>]\<rparr>"

definition submit_request :: "db \<Rightarrow> nat \<Rightarrow> faults \<Rightarrow> (string \<Rightarrow> jsval) \<Rightarrow> db \<times> response" where
  "submit_request d now fails b =
     (if \<not> truthy (b ''student_name'') \<or> \<not> truthy (b ''parent_name'')
         \<or> \<not> truthy (b ''parent_email'') \<or> \<not> truthy (b ''class_id'')
      then (d, Response 400 (Message ''All required fields must be provided''))
      else if fails 0
      then (d, Response 500 (Message ''Failed to submit registration request''))
      else (insert_request d now b, Response 201 (Message ''Registration request submitted'')))"

subsection \<open>GET /api/registration-requests\<close>

definition order_by_desc :: "('a \<Rightarrow> nat) \<Rightarrow> 'a list \<Rightarrow> 'a list" where
  "order_by_desc k rows = rev (sort_key k rows)"

definition list_requests :: "db \<Rightarrow> faults \<Rightarrow> db \<times> response" where
  "list_requests d fails =
     (if fails 0
      then (d, Response 500 (Message ''Failed to fetch registration requests''))
      else (d, Response 200 (RequestRows (order_by_desc requested_at (registration_requests d)))))"

subsection \<open>The statements shared by approve and reject\<close>

definition update_status :: "db \<Rightarrow> nat \<Rightarrow> string \<Rightarrow> nat \<Rightarrow> db" where
  "update_status d now s requestId =
     d\<lparr>registration_requests :=
         map (\<lambda>r. if request_id r = requestId
                   then r\<lparr>status := s, processed_at := Some now\<rparr> else r)
             (registration_requests d)\<rparr>"

definition select_request :: "db \<Rightarrow> nat \<Rightarrow> registration_request list" where
  "select_request d requestId = filter (\<lambda>r. request_id r = requestId) (registration_requests d)"

definition select_parent :: "db \<Rightarrow> jsval \<Rightarrow> user list" where
  "select_parent d e = filter (\<lambda>u. sql_eq (email u) e \<and> user_type u = ''parent'') (users d)"

text \<open>
  Destructuring the result of a query down to its first row gives that row, or
  \<^verbatim>\<open>undefined\<close> when there is none.
\<close>

fun first_row :: "'a list \<Rightarrow> 'a option" where
  "first_row [] = None"
| "first_row (x # _) = Some x"

definition insert_student :: "db \<Rightarrow> registration_request \<Rightarrow> user option \<Rightarrow> db" where
  "insert_student d request p =
     d\<lparr>students := students d @
        [\<lparr>student_id = next_id (map student_id (students d)),
          s_student_name = student_name request,
          s_parent_id = (case p of Some u \<Rightarrow> Some (user_id u) | None \<Rightarrow> None),
          s_parent_name = parent_name request,
          s_parent_email = parent_email request,
          s_student_dob = student_dob request,
          s_grade_level = grade_level request,
          s_class_id = class_id request\<rparr>]\<rparr>"

definition insert_notification :: "db \<Rightarrow> nat \<Rightarrow> nat \<Rightarrow> string \<Rightarrow> string \<Rightarrow> db" where
  "insert_notification d now uid t m =
     d\<lparr>notifications := notifications d @
        [\<lparr>notification_id = next_id (map notification_id (notifications d)),
          n_user_id = uid,
          title = t,
          message = m,
          notification_type = ''request'',
          is_read = False,
          created_at = now\<rparr>]\<rparr>"

subsection \<open>PATCH /api/registration-requests/:id/approve\<close>

text \<open>
  The body of the \<^verbatim>\<open>try\<close> block: the database it leaves behind, and the error it
  threw, if any. Reading \<^verbatim>\<open>request.parent_email\<close> when no row was fetched throws a
  TypeError. Statements that ran before a throw stay in effect.
\<close>

definition approve_steps :: "db \<Rightarrow> nat \<Rightarrow> faults \<Rightarrow> nat \<Rightarrow> db \<times> error option" where
  "approve_steps d now fails requestId =
     (if fails 0 then (d, Some (StorageError 0)) else
      let d1 = update_status d now ''approved'' requestId in
      if fails 1 then (d1, Some (StorageError 1)) else
      case first_row (select_request d1 requestId) of
        None \<Rightarrow> (d1, Some TypeError)
      | Some request \<Rightarrow>
          if fails 2 then (d1, Some (StorageError 2)) else
          let p = first_row (select_parent d1 (parent_email request)) in
          if fails 3 then (d1, Some (StorageError 3)) else
          let d2 = insert_student d1 request p in
          (case p of
             None \<Rightarrow> (d2, None)
           | Some u \<Rightarrow>
               if fails 4 then (d2, Some (StorageError 4)) else
               (insert_notification d2 now (user_id u) ''Registration Approved''
                  (''Your registration request for '' @ to_string (student_name request)
                     @ '' has been approved.''), None)))"

definition approve_request :: "db \<Rightarrow> nat \<Rightarrow> faults \<Rightarrow> nat \<Rightarrow> db \<times> response" where
  "approve_request d now fails requestId =
     (case approve_steps d now fails requestId of
        (d', None) \<Rightarrow> (d', Response 200 (Message ''Request approved and student added.''))
      | (d', Some e) \<Rightarrow> (d', Response 500 (Message ''Failed to approve request'')))"

subsection \<open>PATCH /api/registration-requests/:id/reject\<close>

definition reject_steps :: "db \<Rightarrow> nat \<Rightarrow> faults \<Rightarrow> nat \<Rightarrow> db \<times> error option" where
  "reject_steps d now fails requestId =
     (if fails 0 then (d, Some (StorageError 0)) else
      let d1 = update_status d now ''rejected'' requestId in
      if fails 1 then (d1, Some (StorageError 1)) else
      case first_row (select_request d1 requestId) of
        None \<Rightarrow> (d1, Some TypeError)
      | Some request \<Rightarrow>
          if fails 2 then (d1, Some (StorageError 2)) else
          (case first_row (select_parent d1 (parent_email request)) of
             None \<Rightarrow> (d1, None)
           | Some u \<Rightarrow>
               if fails 3 then (d1, Some (StorageError 3)) else
               (insert_notification d1 now (user_id u) ''Registration Rejected''
                  (''Your registration request for '' @ to_string (student_name request)
                     @ '' has been rejected.''), None)))"

definition reject_request :: "db \<Rightarrow> nat \<Rightarrow> faults \<Rightarrow> nat \<Rightarrow> db \<times> response" where
  "reject_request d now fails requestId =
     (case reject_steps d now fails requestId of
        (d', None) \<Rightarrow> (d', Response 200 (Message ''Request rejected and parent notified.''))
      | (d', Some e) \<Rightarrow> (d', Response 500 (Message ''Failed to reject request'')))"

section \<open>The middleware authenticate\<close>

text \<open>\<^verbatim>\<open>s.split(' ')\<close>: the pieces of \<open>s\<close> between single spaces, at least one piece.\<close>

fun split_on :: "char \<Rightarrow> string \<Rightarrow> string list" where
  "split_on c [] = [] # []"
| "split_on c (x # xs) =
     (if x = c then [] # split_on c xs
      else (case split_on c xs of [] \<Rightarrow> [x] # [] | w # ws \<Rightarrow> (x # w) # ws))"

fun element_at :: "'a list \<Rightarrow> nat \<Rightarrow> 'a option" where
  "element_at [] n = None"
| "element_at (x # xs) 0 = Some x"
| "element_at (x # xs) (Suc n) = element_at xs n"

text \<open>
  \<^verbatim>\<open>req.headers.authorization?.split(' ')[1]\<close>: the header may be absent, and the
  second piece may be absent; both read as \<^verbatim>\<open>undefined\<close>, here \<open>None\<close>.
\<close>

definition bearer_token :: "string option \<Rightarrow> string option" where
  "bearer_token authorization =
     (case authorization of None \<Rightarrow> None | Some h \<Rightarrow> element_at (split_on CHR '' '' h) 1)"

text \<open>
  The token library is outside the source: \<open>verify\<close> gives the \<^verbatim>\<open>userId\<close> a token
  was signed for, or \<open>None\<close> where \<^verbatim>\<open>jwt.verify\<close> throws. The result is the response
  the middleware sends itself, or the user it hands to the next handler as
  \<^verbatim>\<open>req.user\<close>. Everything thrown inside the \<^verbatim>\<open>try\<close> block, a rejected query too,
  is answered with 401.
\<close>

definition authenticate ::
  "string list \<Rightarrow> (string \<Rightarrow> nat option) \<Rightarrow> db \<Rightarrow> faults \<Rightarrow> string option \<Rightarrow> response + user" where
  "authenticate user_types verify d fails authorization =
     (case bearer_token authorization of
        None \<Rightarrow> Inl (Response 401 (Message ''Authentication required''))
      | Some token \<Rightarrow>
          if token = [] then Inl (Response 401 (Message ''Authentication required''))
          else
            (case verify token of
               None \<Rightarrow> Inl (Response 401 (Message ''Invalid token''))
             | Some userId \<Rightarrow>
                 if fails 0 then Inl (Response 401 (Message ''Invalid token''))
                 else
                   (case filter (\<lambda>u. user_id u = userId) (users d) of
                      [] \<Rightarrow> Inl (Response 401 (Message ''User not found''))
                    | user # _ \<Rightarrow>
                        if user_types \<noteq> [] \<and> user_type user \<notin> set user_types
                        then Inl (Response 403 (Message ''Insufficient permissions''))
                        else Inr user)))"

text \<open>
  A route declared with the middleware runs it first; the handler behind it sees the
  storage calls that follow the middleware's one.
\<close>

definition guarded ::
  "string list \<Rightarrow> (string \<Rightarrow> nat option) \<Rightarrow> db \<Rightarrow> faults \<Rightarrow> string option
     \<Rightarrow> (faults \<Rightarrow> user \<Rightarrow> db \<times> response) \<Rightarrow> db \<times> response" where
  "guarded user_types verify d fails authorization handler =
     (case authenticate user_types verify d fails authorization of
        Inl r \<Rightarrow> (d, r)
      | Inr user \<Rightarrow> handler (\<lambda>k. fails (Suc k)) user)"

subsection \<open>Two routes behind the middleware\<close>

definition get_notifications :: "db \<Rightarrow> faults \<Rightarrow> user \<Rightarrow> db \<times> response" where
  "get_notifications d fails user =
     (if fails 0 then (d, Response 500 (Message ''Failed to fetch notifications''))
      else (d, Response 200 (NotificationRows
              (order_by_desc created_at
                 (filter (\<lambda>n. n_user_id n = user_id user) (notifications d))))))"

definition mark_notification_read :: "db \<Rightarrow> faults \<Rightarrow> user \<Rightarrow> nat \<Rightarrow> db \<times> response" where
  "mark_notification_read d fails user nid =
     (if fails 0 then (d, Response 500 (Message ''Failed to update notification''))
      else (d\<lparr>notifications :=
                map (\<lambda>n. if notification_id n = nid \<and> n_user_id n = user_id user
                          then n\<lparr>is_read := True\<rparr> else n)
                    (notifications d)\<rparr>,
            Response 200 (Message ''Notification marked as read'')))"

section \<open>POST /api/register\<close>

text \<open>
  \<^verbatim>\<open>trim\<close> and \<^verbatim>\<open>toLowerCase\<close> on the characters below 256: the white space there
  is 9 to 13, 32 and 160; the capital letters are 65 to 90 and 192 to 222 without 215.
\<close>

definition is_space :: "char \<Rightarrow> bool" where
  "is_space c = (let n = (of_char c :: nat) in (9 \<le> n \<and> n \<le> 13) \<or> n = 32 \<or> n = 160)"

definition trim :: "string \<Rightarrow> string" where
  "trim s = rev (dropWhile is_space (rev (dropWhile is_space s)))"

definition lower_char :: "char \<Rightarrow> char" where
  "lower_char c =
     (let n = (of_char c :: nat)
      in if (65 \<le> n \<and> n \<le> 90) \<or> (192 \<le> n \<and> n \<le> 222 \<and> n \<noteq> 215)
         then char_of (n + 32) else c)"

definition toLowerCase :: "string \<Rightarrow> string" where
  "toLowerCase s = map lower_char s"

text \<open>
  \<^verbatim>\<open>(user_type || '').trim().toLowerCase()\<close>: a value that is truthy and not a string
  has no method \<^verbatim>\<open>trim\<close>, and the call throws.
\<close>

definition normalize_user_type :: "jsval \<Rightarrow> error + string" where
  "normalize_user_type v =
     (if \<not> truthy v then Inr (toLowerCase (trim []))
      else (case v of JStr s \<Rightarrow> Inr (toLowerCase (trim s)) | _ \<Rightarrow> Inl TypeError))"

definition validUserTypes :: "string list" where
  "validUserTypes = [''student'', ''parent'', ''teacher'', ''admin'']"

definition select_existing :: "db \<Rightarrow> jsval \<Rightarrow> jsval \<Rightarrow> user list" where
  "select_existing d un em = filter (\<lambda>u. sql_eq (username u) un \<or> sql_eq (email u) em) (users d)"

definition insert_user :: "db \<Rightarrow> (string \<Rightarrow> jsval) \<Rightarrow> string \<Rightarrow> string \<Rightarrow> db" where
  "insert_user d b hashedPassword normalizedUserType =
     d\<lparr>users := users d @
        [\<lparr>user_id = next_id (map user_id (users d)),
          username = sql_param (b ''username''),
          password = JStr hashedPassword,
          email = sql_param (b ''email''),
          first_name = sql_param (b ''firstName''),
          last_name = sql_param (b ''lastName''),
          user_type = normalizedUserType\<rparr>]\<rparr>"

definition insert_parent :: "db \<Rightarrow> nat \<Rightarrow> (string \<Rightarrow> jsval) \<Rightarrow> db" where
  "insert_parent d userId b =
     d\<lparr>parents := parents d @
        [\<lparr>parent_id = userId,
          phone_number = sql_param (b ''phone_number''),
          address = sql_param (b ''address'')\<rparr>]\<rparr>"

definition insert_teacher :: "db \<Rightarrow> nat \<Rightarrow> nat \<Rightarrow> (string \<Rightarrow> jsval) \<Rightarrow> db" where
  "insert_teacher d now userId b =
     d\<lparr>teachers := teachers d @
        [\<lparr>teacher_id = userId,
          subject_specialization = sql_param (b ''subject_specialization''),
          hire_date = now\<rparr>]\<rparr>"

text \<open>
  The inner \<^verbatim>\<open>try\<close> block, between \<^verbatim>\<open>beginTransaction\<close> and \<^verbatim>\<open>commit\<close>. The
  statements work on the transaction's own view of the database; the result is the
  view that \<^verbatim>\<open>commit\<close> makes permanent, or the error thrown before that.
\<close>

definition register_transaction ::
  "db \<Rightarrow> nat \<Rightarrow> faults \<Rightarrow> (string \<Rightarrow> jsval) \<Rightarrow> string \<Rightarrow> string \<Rightarrow> error + db" where
  "register_transaction d now fails b hashedPassword normalizedUserType =
     (if fails 3 then Inl (StorageError 3) else
      let userId = next_id (map user_id (users d));
          t1 = insert_user d b hashedPassword normalizedUserType
      in if normalizedUserType = ''parent''
         then (if fails 4 then Inl (StorageError 4) else
               if fails 5 then Inl (StorageError 5) else Inr (insert_parent t1 userId b))
         else if normalizedUserType = ''teacher''
         then (if fails 4 then Inl (StorageError 4) else
               if fails 5 then Inl (StorageError 5) else Inr (insert_teacher t1 now userId b))
         else (if fails 5 then Inl (StorageError 5) else Inr t1))"

text \<open>
  The handler. \<open>hash\<close> is \<^verbatim>\<open>bcrypt.hash(password, 10)\<close>, which is outside the source
  and may throw. Storage calls: 0 the SELECT for an existing account, 1
  \<^verbatim>\<open>getConnection\<close>, 2 \<^verbatim>\<open>beginTransaction\<close>, 3 the INSERT of the user, 4 the INSERT
  of the parent or teacher row, 5 \<^verbatim>\<open>commit\<close>, 6 \<^verbatim>\<open>rollback\<close>. An error in the inner
  block is rethrown after the rollback, unless the rollback throws its own.
\<close>

definition register_user ::
  "db \<Rightarrow> nat \<Rightarrow> (jsval \<Rightarrow> string option) \<Rightarrow> faults \<Rightarrow> (string \<Rightarrow> jsval) \<Rightarrow> db \<times> response" where
  "register_user d now hash fails b =
     (case normalize_user_type (b ''user_type'') of
        Inl e \<Rightarrow> (d, Response 500 (Failure ''Registration failed'' e))
      | Inr normalizedUserType \<Rightarrow>
          if normalizedUserType \<notin> set validUserTypes
          then (d, Response 400 (InvalidUserType validUserTypes (b ''user_type'')))
          else if \<not> truthy (b ''username'') \<or> \<not> truthy (b ''password'') \<or> \<not> truthy (b ''email'')
                  \<or> \<not> truthy (b ''firstName'') \<or> \<not> truthy (b ''lastName'')
                  \<or> \<not> truthy (b ''user_type'')
          then (d, Response 400 (Message ''All required fields must be provided''))
          else if b ''password'' \<noteq> b ''confirmPassword''
          then (d, Response 400 (Message ''Passwords do not match''))
          else if fails 0
          then (d, Response 500 (Failure ''Registration failed'' (StorageError 0)))
          else if select_existing d (b ''username'') (b ''email'') \<noteq> []
          then (d, Response 400 (Message ''Username or email already exists''))
          else
            (case hash (b ''password'') of
               None \<Rightarrow> (d, Response 500 (Failure ''Registration failed'' HashError))
             | Some hashedPassword \<Rightarrow>
                 if fails 1 then (d, Response 500 (Failure ''Registration failed'' (StorageError 1)))
                 else if fails 2
                 then (d, Response 500 (Failure ''Registration failed'' (StorageError 2)))
                 else
                   (case register_transaction d now fails b hashedPassword normalizedUserType of
                      Inr t \<Rightarrow> (t, Response 201 (Message ''User registered successfully''))
                    | Inl e \<Rightarrow>
                        (d, Response 500 (Failure ''Registration failed''
                              (if fails 6 then StorageError 6 else e))))))"

section \<open>The routes\<close>

datatype route =
    PostRegister
  | GetNotifications
  | PatchNotificationRead nat
  | PostRegistrationRequest
  | GetRegistrationRequests
  | PatchApprove nat
  | PatchReject nat

record http_request =
  route :: route
  authorization :: "string option"
  req_body :: "string \<Rightarrow> jsval"

text \<open>
  The routes covered here, as the source declares them: the two notification routes pass
  through \<^verbatim>\<open>authenticate()\<close>, the registration routes are declared with their
  handler alone.
\<close>

definition app ::
  "(string \<Rightarrow> nat option) \<Rightarrow> (jsval \<Rightarrow> string option) \<Rightarrow> nat \<Rightarrow> faults \<Rightarrow> db \<Rightarrow> http_request
     \<Rightarrow> db \<times> response" where
  "app verify hash now fails d req =
     (case route req of
        PostRegister \<Rightarrow> register_user d now hash fails (req_body req)
      | GetNotifications \<Rightarrow>
          guarded [] verify d fails (authorization req) (\<lambda>f user. get_notifications d f user)
      | PatchNotificationRead i \<Rightarrow>
          guarded [] verify d fails (authorization req)
            (\<lambda>f user. mark_notification_read d f user i)
      | PostRegistrationRequest \<Rightarrow> submit_request d now fails (req_body req)
      | GetRegistrationRequests \<Rightarrow> list_requests d fails
      | PatchApprove i \<Rightarrow> approve_request d now fails i
      | PatchReject i \<Rightarrow> reject_request d now fails i)"

text \<open>The four routes of the registration workflow.\<close>

fun workflow_route :: "route \<Rightarrow> bool" where
  "workflow_route PostRegistrationRequest = True"
| "workflow_route GetRegistrationRequests = True"
| "workflow_route (PatchApprove i) = True"
| "workflow_route (PatchReject i) = True"
| "workflow_route _ = False"

section \<open>Example data\<close>

definition no_faults :: faults where
  "no_faults k = False"

definition role_insert_fails :: faults where
  "role_insert_fails k = (k = 4)"

definition empty_db :: db where
  "empty_db = \<lparr>users = [], parents = [], teachers = [], registration_requests = [],
                students = [], notifications = []\<rparr>"

definition bob :: user where
  "bob = \<lparr>user_id = 1, username = JStr ''bob'', password = JStr ''h:secret'',
           email = JStr ''bob@example.org'', first_name = JStr ''Bob'',
           last_name = JStr ''Moyo'', user_type = ''parent''\<rparr>"

definition ann_request :: registration_request where
  "ann_request = \<lparr>request_id = 1, student_name = JStr ''Ann'', parent_name = JStr ''Bob Moyo'',
                   parent_email = JStr ''bob@example.org'', student_dob = JNull,
                   grade_level = JNull, class_id = JNum 3, status = ''pending'',
                   requested_at = 5, processed_at = None\<rparr>"

definition db_pending :: db where
  "db_pending = empty_db\<lparr>users := [bob], registration_requests := [ann_request]\<rparr>"

definition db_rejected :: db where
  "db_rejected = empty_db\<lparr>users := [bob],
     registration_requests := [ann_request\<lparr>status := ''rejected'', processed_at := Some 6\<rparr>]\<rparr>"

definition db_two :: db where
  "db_two = empty_db\<lparr>registration_requests :=
     [ann_request, ann_request\<lparr>request_id := 2, status := ''approved'', requested_at := 8,
                                processed_at := Some 9\<rparr>]\<rparr>"

definition submit_body :: "string \<Rightarrow> jsval" where
  "submit_body = (\<lambda>k. JUndefined)(''student_name'' := JStr ''Ann'',
     ''parent_name'' := JStr ''Bob Moyo'', ''parent_email'' := JStr ''bob@example.org'',
     ''class_id'' := JNum 3)"

definition register_body :: "string \<Rightarrow> jsval" where
  "register_body = (\<lambda>k. JUndefined)(''username'' := JStr ''carol'',
     ''password'' := JStr ''pw'', ''confirmPassword'' := JStr ''pw'',
     ''email'' := JStr ''carol@example.org'', ''firstName'' := JStr ''Carol'',
     ''lastName'' := JStr ''Dube'', ''user_type'' := JStr '' Parent '')"

definition verify_example :: "string \<Rightarrow> nat option" where
  "verify_example t = (if t = ''tok1'' then Some 1 else None)"

definition hash_example :: "jsval \<Rightarrow> string option" where
  "hash_example v = (case v of JStr s \<Rightarrow> Some (''h:'' @ s) | _ \<Rightarrow> None)"

definition example_handler :: "faults \<Rightarrow> user \<Rightarrow> db \<times> response" where
  "example_handler = get_notifications db_pending"

definition approve_call :: http_request where
  "approve_call = \<lparr>route = PatchApprove 1, authorization = None, req_body = (\<lambda>k. JUndefined)\<rparr>"

section \<open>Facts about the statements\<close>





lemma update_status_requests:
  "registration_requests (update_status d now s i) =
     map (\<lambda>r. if request_id r = i then r\<lparr>status := s, processed_at := Some now\<rparr> else r)
       (registration_requests d)"
  by (simp add: update_status_def)



lemma update_status_absent:
  assumes "i \<notin> request_id ` set (registration_requests d)"
  shows "update_status d now s i = d"
proof -
  have "map (\<lambda>r. if request_id r = i then r\<lparr>status := s, processed_at := Some now\<rparr> else r)
          (registration_requests d) = registration_requests d"
    using assms by (intro map_idI) auto
  then show ?thesis by (simp add: update_status_def)
qed

lemma select_request_absent:
  "i \<notin> request_id ` set (registration_requests d) \<Longrightarrow> select_request d i = []"
  by (auto simp: select_request_def filter_empty_conv)

lemma insert_notification_tables:
  "users (insert_notification d now uid t m) = users d"
  "parents (insert_notification d now uid t m) = parents d"
  "teachers (insert_notification d now uid t m) = teachers d"
  "students (insert_notification d now uid t m) = students d"
  "registration_requests (insert_notification d now uid t m) = registration_requests d"
  by (simp_all add: insert_notification_def)

lemma insert_student_tables:
  "users (insert_student d r p) = users d"
  "parents (insert_student d r p) = parents d"
  "teachers (insert_student d r p) = teachers d"
  "notifications (insert_student d r p) = notifications d"
  "registration_requests (insert_student d r p) = registration_requests d"
  by (simp_all add: insert_student_def)

lemma approve_request_fst: "fst (approve_request d now fails i) = fst (approve_steps d now fails i)"
  by (simp add: approve_request_def split: prod.split option.split)

lemma reject_request_fst: "fst (reject_request d now fails i) = fst (reject_steps d now fails i)"
  by (simp add: reject_request_def split: prod.split option.split)

lemma approve_steps_requests:
  "\<not> fails 0 \<Longrightarrow> registration_requests (fst (approve_steps d now fails i)) =
     registration_requests (update_status d now ''approved'' i)"
  by (simp add: approve_steps_def Let_def insert_notification_tables insert_student_tables
      split: option.split)

lemma reject_steps_requests:
  "\<not> fails 0 \<Longrightarrow> registration_requests (fst (reject_steps d now fails i)) =
     registration_requests (update_status d now ''rejected'' i)"
  by (simp add: reject_steps_def Let_def insert_notification_tables
      split: option.split)


lemma fold_max_ge: "a \<le> fold max xs (a::nat)"
  by (induction xs arbitrary: a) (auto intro: order_trans[OF max.cobounded2])

lemma fold_max_upper: "x \<in> set xs \<Longrightarrow> x \<le> fold max xs (a::nat)"
proof (induction xs arbitrary: a)
  case Nil
  then show ?case by simp
next
  case (Cons y ys)
  show ?case
  proof (cases "x = y")
    case True
    have "y \<le> max y a" by simp
    also have "\<dots> \<le> fold max ys (max y a)" by (rule fold_max_ge)
    finally show ?thesis using True by simp
  next
    case False
    with Cons show ?thesis by simp
  qed
qed

lemma next_id_fresh: "next_id ids \<notin> set ids"
proof
  assume "next_id ids \<in> set ids"
  then have "next_id ids \<le> fold max ids 0" by (rule fold_max_upper)
  then show False by (simp add: next_id_def)
qed

lemma register_transaction_Inr:
  assumes "register_transaction d now fails b hp ut = Inr t"
  shows "\<exists>u. users t = users d @ [u] \<and> user_type u = ut
           \<and> user_id u = next_id (map user_id (users d))
           \<and> (if ut = ''parent'' then \<exists>p. parents t = parents d @ [p] \<and> parent_id p = user_id u
              else parents t = parents d)
           \<and> (if ut = ''teacher'' then \<exists>p. teachers t = teachers d @ [p] \<and> teacher_id p = user_id u
              else teachers t = teachers d)
           \<and> \<not> fails 3 \<and> \<not> fails 5 \<and> (ut = ''parent'' \<or> ut = ''teacher'' \<longrightarrow> \<not> fails 4)"
  using assms
  by (auto simp: register_transaction_def Let_def insert_user_def insert_parent_def
      insert_teacher_def split: if_splits)

lemma register_cases:
  "(fst (register_user d now hash fails b) = d
      \<and> status_code (snd (register_user d now hash fails b)) \<noteq> 201)
   \<or> (\<exists>ut hp t. normalize_user_type (b ''user_type'') = Inr ut
        \<and> register_transaction d now fails b hp ut = Inr t
        \<and> register_user d now hash fails b =
            (t, Response 201 (Message ''User registered successfully'')))"
  by (auto simp: register_user_def split: sum.split option.split)

lemmas example_defs = no_faults_def empty_db_def bob_def ann_request_def db_pending_def
  db_rejected_def db_two_def submit_body_def

section \<open>The registration workflow: properties\<close>



text \<open>
  C2, as the source has it. Neither handler looks at the status a request has: when the
  UPDATE runs, approve writes \<^verbatim>\<open>approved\<close> and reject writes \<^verbatim>\<open>rejected\<close> into
  every request with the given id, whatever its status was, and the status of every other
  request stays as it was.
\<close>

theorem status_overwritten:
  assumes "\<not> fails 0"
  shows "map status (registration_requests (fst (approve_request d now fails i))) =
           map (\<lambda>q. if request_id q = i then ''approved'' else status q) (registration_requests d)
       \<and> map status (registration_requests (fst (reject_request d now fails i))) =
           map (\<lambda>q. if request_id q = i then ''rejected'' else status q) (registration_requests d)"
  using assms
  by (simp add: approve_request_fst reject_request_fst approve_steps_requests
      reject_steps_requests update_status_requests o_def if_distrib cong: if_cong)

theorem status_overwritten_witness:
  "\<not> no_faults 0
   \<and> map status (registration_requests (fst (approve_request db_pending 9 no_faults 1)))
       = [''approved'']
   \<and> map status (registration_requests (fst (reject_request db_pending 9 no_faults 1)))
       = [''rejected'']"
proof -
  have h: "\<not> no_faults 0"
    by (simp add: no_faults_def)
  have q: "registration_requests db_pending = [ann_request]" "request_id ann_request = 1"
    by (simp_all add: db_pending_def empty_db_def ann_request_def)
  show ?thesis
    using h q status_overwritten[where fails = no_faults and d = db_pending and now = 9 and i = 1, OF h] by simp
qed

text \<open>
  C2, as the claim states it, fails: a request that was rejected at time 6 is approved
  at time 9 by the approve handler, which also adds a student for it.
\<close>

theorem approve_rejected_counterexample:
  "map status (registration_requests db_rejected) = [''rejected'']
   \<and> map status (registration_requests (fst (approve_request db_rejected 9 no_faults 1)))
       = [''approved'']
   \<and> length (students (fst (approve_request db_rejected 9 no_faults 1)))
       = Suc (length (students db_rejected))"
  by (simp add: example_defs approve_request_def approve_steps_def update_status_def
      select_request_def select_parent_def sql_eq_def insert_student_def
      insert_notification_def)

text \<open>
  C3. Approving an id that no request has: whatever storage calls fail, the handler
  answers 500 and the database is unchanged, so no student and no notification is
  created. When the UPDATE and the SELECT succeed, the error behind the 500 is the
  TypeError thrown on reading a field of the row that was not found.
\<close>

theorem approve_unknown_id:
  assumes "i \<notin> request_id ` set (registration_requests d)"
  shows "approve_request d now fails i = (d, Response 500 (Message ''Failed to approve request''))
       \<and> (\<not> fails 0 \<and> \<not> fails 1 \<longrightarrow> approve_steps d now fails i = (d, Some TypeError))"
  using assms
  by (simp add: approve_request_def approve_steps_def update_status_absent select_request_absent)

theorem approve_unknown_id_witness:
  "7 \<notin> request_id ` set (registration_requests db_pending)
   \<and> approve_request db_pending 9 no_faults 7 =
       (db_pending, Response 500 (Message ''Failed to approve request''))
   \<and> approve_steps db_pending 9 no_faults 7 = (db_pending, Some TypeError)"
proof -
  have h: "7 \<notin> request_id ` set (registration_requests db_pending)"
    by (simp add: db_pending_def empty_db_def ann_request_def)
  show ?thesis
    using h approve_unknown_id[OF h, of 9 no_faults] by (simp add: no_faults_def)
qed



text \<open>
  C5. A submission in which the student name, the parent name, the parent email or the
  class id is missing is answered with 400 and leaves the database as it was. The test
  of the source is \<^verbatim>\<open>!field\<close>, so a field that is absent, null, empty, zero or false
  counts as missing.
\<close>

theorem submit_missing_field:
  assumes "\<not> truthy (b ''student_name'') \<or> \<not> truthy (b ''parent_name'')
         \<or> \<not> truthy (b ''parent_email'') \<or> \<not> truthy (b ''class_id'')"
  shows "submit_request d now fails b =
           (d, Response 400 (Message ''All required fields must be provided''))"
  using assms by (simp add: submit_request_def)

theorem submit_missing_field_witness:
  "\<not> truthy ((submit_body(''class_id'' := JUndefined)) ''class_id'')
   \<and> submit_request db_pending 9 no_faults (submit_body(''class_id'' := JUndefined)) =
       (db_pending, Response 400 (Message ''All required fields must be provided''))"
  using submit_missing_field[of "submit_body(''class_id'' := JUndefined)" db_pending 9 no_faults]
  by simp

text \<open>
  C6, as the source has it. A submission with all four required fields present, whose
  INSERT the database accepts, appends exactly one request, with the status
  \<^verbatim>\<open>pending\<close>, no processing time and an id that no stored request has, and is
  answered with 201 and a fixed confirmation message.
\<close>

theorem submit_complete:
  assumes "truthy (b ''student_name'')" "truthy (b ''parent_name'')"
    "truthy (b ''parent_email'')" "truthy (b ''class_id'')" "\<not> fails 0"
  shows "\<exists>q. submit_request d now fails b =
            (d\<lparr>registration_requests := registration_requests d @ [q]\<rparr>,
             Response 201 (Message ''Registration request submitted''))
        \<and> status q = ''pending'' \<and> processed_at q = None
        \<and> request_id q \<notin> request_id ` set (registration_requests d)"
proof -
  obtain q where q: "insert_request d now b = d\<lparr>registration_requests := registration_requests d @ [q]\<rparr>"
    "status q = ''pending''" "processed_at q = None"
    "request_id q = next_id (map request_id (registration_requests d))"
    by (simp add: insert_request_def default_status_def)
  have "request_id q \<notin> request_id ` set (registration_requests d)"
    using next_id_fresh[of "map request_id (registration_requests d)"] q(4) by simp
  moreover have "submit_request d now fails b =
      (d\<lparr>registration_requests := registration_requests d @ [q]\<rparr>,
       Response 201 (Message ''Registration request submitted''))"
    using assms q(1) by (simp add: submit_request_def)
  ultimately show ?thesis using q(2,3) by blast
qed

theorem submit_complete_witness:
  "truthy (submit_body ''student_name'') \<and> truthy (submit_body ''parent_name'')
   \<and> truthy (submit_body ''parent_email'') \<and> truthy (submit_body ''class_id'')
   \<and> \<not> no_faults 0
   \<and> (\<exists>q. submit_request db_pending 7 no_faults submit_body =
            (db_pending\<lparr>registration_requests := registration_requests db_pending @ [q]\<rparr>,
             Response 201 (Message ''Registration request submitted''))
        \<and> status q = ''pending'' \<and> processed_at q = None
        \<and> request_id q \<notin> request_id ` set (registration_requests db_pending))"
proof -
  have h: "truthy (submit_body ''student_name'')" "truthy (submit_body ''parent_name'')"
    "truthy (submit_body ''parent_email'')" "truthy (submit_body ''class_id'')"
    by (simp_all add: submit_body_def)
  have nf: "\<not> no_faults 0"
    by (simp add: no_faults_def)
  show ?thesis
    using h nf submit_complete[where fails = no_faults and b = submit_body and d = db_pending and now = 7, OF h nf] by blast
qed

text \<open>
  C6, as the claim states it, fails: the reply to a successful submission is the same
  confirmation message whether the new request got the id 1 or the id 2; the id is not
  part of the reply.
\<close>

theorem submit_reply_counterexample:
  "submit_request empty_db 7 no_faults submit_body =
     (empty_db\<lparr>registration_requests := [ann_request\<lparr>request_id := 1, requested_at := 7\<rparr>]\<rparr>,
      Response 201 (Message ''Registration request submitted''))
   \<and> submit_request db_pending 7 no_faults submit_body =
     (db_pending\<lparr>registration_requests :=
         [ann_request, ann_request\<lparr>request_id := 2, requested_at := 7\<rparr>]\<rparr>,
      Response 201 (Message ''Registration request submitted''))"
  by (simp add: example_defs submit_request_def insert_request_def next_id_def
      default_status_def)

text \<open>
  C7. When its query succeeds, the list handler answers 200 with every stored request,
  each as often as it is stored and whatever its status, in descending order of the
  submission time; the database is unchanged.
\<close>

theorem list_all_desc:
  assumes "\<not> fails 0"
  shows "\<exists>rows. list_requests d fails = (d, Response 200 (RequestRows rows))
      \<and> mset rows = mset (registration_requests d)
      \<and> sorted_wrt (\<lambda>a b. requested_at b \<le> requested_at a) rows"
proof -
  let ?rows = "order_by_desc requested_at (registration_requests d)"
  have "mset ?rows = mset (registration_requests d)"
    by (simp add: order_by_desc_def)
  moreover have "sorted_wrt (\<lambda>a b. requested_at b \<le> requested_at a) ?rows"
  proof -
    have "sorted (map requested_at (sort_key requested_at (registration_requests d)))"
      by simp
    then have "sorted_wrt (\<lambda>a b. requested_at a \<le> requested_at b)
                 (sort_key requested_at (registration_requests d))"
      by (simp add: sorted_map)
    then show ?thesis
      by (simp add: order_by_desc_def sorted_wrt_rev)
  qed
  ultimately show ?thesis
    using assms by (simp add: list_requests_def)
qed

theorem list_all_desc_witness:
  "\<not> no_faults 0
   \<and> (\<exists>rows. list_requests db_two no_faults = (db_two, Response 200 (RequestRows rows))
      \<and> mset rows = mset (registration_requests db_two)
      \<and> sorted_wrt (\<lambda>a b. requested_at b \<le> requested_at a) rows)"
proof -
  have nf: "\<not> no_faults 0"
    by (simp add: no_faults_def)
  show ?thesis
    using nf list_all_desc[where fails = no_faults and d = db_two, OF nf] by blast
qed

section \<open>The middleware and the routes: properties\<close>

text \<open>
  C8. On the four routes of the registration workflow the authorization header is not
  read: a request and the same request with any other header, or with none, get the
  same database and the same reply.
\<close>

theorem workflow_ignores_credential:
  assumes "workflow_route (route req)"
  shows "app verify hash now fails d (req\<lparr>authorization := a\<rparr>) = app verify hash now fails d req"
proof (cases "route req")
  case PostRegister
  with assms show ?thesis by simp
next
  case GetNotifications
  with assms show ?thesis by simp
next
  case (PatchNotificationRead i)
  with assms show ?thesis by simp
next
  case PostRegistrationRequest
  then show ?thesis by (simp add: app_def)
next
  case GetRegistrationRequests
  then show ?thesis by (simp add: app_def)
next
  case (PatchApprove i)
  then show ?thesis by (simp add: app_def)
next
  case (PatchReject i)
  then show ?thesis by (simp add: app_def)
qed

theorem workflow_ignores_credential_witness:
  "workflow_route (route approve_call)
   \<and> app verify_example hash_example 9 no_faults db_pending
        (approve_call\<lparr>authorization := Some ''Bearer tok1''\<rparr>)
     = app verify_example hash_example 9 no_faults db_pending approve_call"
proof -
  have h: "workflow_route (route approve_call)"
    by (simp add: approve_call_def)
  show ?thesis
    using h workflow_ignores_credential[OF h, of verify_example hash_example 9 no_faults
        db_pending "Some ''Bearer tok1''"]
    by blast
qed

text \<open>A route behind the middleware does read the header.\<close>

lemma guarded_route_reads_credential:
  "app verify_example hash_example 9 no_faults db_pending
     (approve_call\<lparr>route := GetNotifications\<rparr>)
   = (db_pending, Response 401 (Message ''Authentication required''))
   \<and> app verify_example hash_example 9 no_faults db_pending
       (approve_call\<lparr>route := GetNotifications, authorization := Some ''Bearer tok1''\<rparr>)
   = (db_pending, Response 200 (NotificationRows []))"
  by (simp add: app_def guarded_def authenticate_def bearer_token_def approve_call_def
      verify_example_def get_notifications_def order_by_desc_def example_defs)

text \<open>
  C9. A request to a route behind the middleware is refused with 401, the handler is not
  run and the database stays as it was, when the header holds no token, when the token
  does not verify, when the lookup of the user fails, and when the verified user id is
  the id of no stored user. For a token that resolves to the stored user \<open>u\<close>: with a
  non-empty list of permitted roles that does not hold the role of \<open>u\<close> the request is
  refused with 403 and the handler is not run; with an empty list, or a list that holds
  the role of \<open>u\<close>, the handler is run with \<open>u\<close>.
\<close>

theorem guard_outcomes:
  "(bearer_token h = None \<or> bearer_token h = Some [] \<longrightarrow>
      authenticate ts verify d fails h = Inl (Response 401 (Message ''Authentication required''))
      \<and> guarded ts verify d fails h handler =
            (d, Response 401 (Message ''Authentication required'')))
 \<and> (bearer_token h = Some t \<and> t \<noteq> [] \<and> (verify t = None \<or> fails 0) \<longrightarrow>
      authenticate ts verify d fails h = Inl (Response 401 (Message ''Invalid token''))
      \<and> guarded ts verify d fails h handler = (d, Response 401 (Message ''Invalid token'')))
 \<and> (bearer_token h = Some t \<and> t \<noteq> [] \<and> verify t = Some uid \<and> \<not> fails 0
      \<and> uid \<notin> user_id ` set (users d) \<longrightarrow>
      authenticate ts verify d fails h = Inl (Response 401 (Message ''User not found''))
      \<and> guarded ts verify d fails h handler = (d, Response 401 (Message ''User not found'')))
 \<and> (bearer_token h = Some t \<and> t \<noteq> [] \<and> verify t = Some uid \<and> \<not> fails 0
      \<and> first_row (filter (\<lambda>u. user_id u = uid) (users d)) = Some u \<longrightarrow>
      (ts \<noteq> [] \<and> user_type u \<notin> set ts \<longrightarrow>
         authenticate ts verify d fails h = Inl (Response 403 (Message ''Insufficient permissions''))
         \<and> guarded ts verify d fails h handler = (d, Response 403 (Message ''Insufficient permissions'')))
      \<and> (ts = [] \<or> user_type u \<in> set ts \<longrightarrow>
         authenticate ts verify d fails h = Inr u
         \<and> guarded ts verify d fails h handler = handler (\<lambda>k. fails (Suc k)) u))"
proof (intro conjI impI)
  assume "bearer_token h = None \<or> bearer_token h = Some []"
  then show au: "authenticate ts verify d fails h = Inl (Response 401 (Message ''Authentication required''))"
    by (auto simp: authenticate_def)
  then show "guarded ts verify d fails h handler = (d, Response 401 (Message ''Authentication required''))"
    by (simp add: guarded_def)
next
  assume "bearer_token h = Some t \<and> t \<noteq> [] \<and> (verify t = None \<or> fails 0)"
  then show au: "authenticate ts verify d fails h = Inl (Response 401 (Message ''Invalid token''))"
    by (auto simp: authenticate_def split: option.split)
  then show "guarded ts verify d fails h handler = (d, Response 401 (Message ''Invalid token''))"
    by (simp add: guarded_def)
next
  assume a: "bearer_token h = Some t \<and> t \<noteq> [] \<and> verify t = Some uid \<and> \<not> fails 0
      \<and> uid \<notin> user_id ` set (users d)"
  then have "filter (\<lambda>u. user_id u = uid) (users d) = []"
    by (auto simp: filter_empty_conv)
  with a show au: "authenticate ts verify d fails h = Inl (Response 401 (Message ''User not found''))"
    by (simp add: authenticate_def)
  then show "guarded ts verify d fails h handler = (d, Response 401 (Message ''User not found''))"
    by (simp add: guarded_def)
next
  assume a: "bearer_token h = Some t \<and> t \<noteq> [] \<and> verify t = Some uid \<and> \<not> fails 0
      \<and> first_row (filter (\<lambda>u. user_id u = uid) (users d)) = Some u"
    and b: "ts \<noteq> [] \<and> user_type u \<notin> set ts"
  from a obtain us where us: "filter (\<lambda>u. user_id u = uid) (users d) = u # us"
    by (cases "filter (\<lambda>u. user_id u = uid) (users d)") auto
  with a b show au: "authenticate ts verify d fails h = Inl (Response 403 (Message ''Insufficient permissions''))"
    by (simp add: authenticate_def)
  then show "guarded ts verify d fails h handler = (d, Response 403 (Message ''Insufficient permissions''))"
    by (simp add: guarded_def)
next
  assume a: "bearer_token h = Some t \<and> t \<noteq> [] \<and> verify t = Some uid \<and> \<not> fails 0
      \<and> first_row (filter (\<lambda>u. user_id u = uid) (users d)) = Some u"
    and b: "ts = [] \<or> user_type u \<in> set ts"
  from a obtain us where us: "filter (\<lambda>u. user_id u = uid) (users d) = u # us"
    by (cases "filter (\<lambda>u. user_id u = uid) (users d)") auto
  with a b show au: "authenticate ts verify d fails h = Inr u"
    by (auto simp: authenticate_def)
  then show "guarded ts verify d fails h handler = handler (\<lambda>k. fails (Suc k)) u"
    by (simp add: guarded_def)
qed

theorem guard_outcomes_witness:
  "bearer_token None = None
   \<and> guarded [''teacher''] verify_example db_pending no_faults None example_handler
       = (db_pending, Response 401 (Message ''Authentication required''))
   \<and> bearer_token (Some ''Bearer nope'') = Some ''nope''
   \<and> guarded [''teacher''] verify_example db_pending no_faults (Some ''Bearer nope'')
        example_handler
       = (db_pending, Response 401 (Message ''Invalid token''))
   \<and> bearer_token (Some ''Bearer tok1'') = Some ''tok1''
   \<and> 1 \<notin> user_id ` set (users empty_db)
   \<and> guarded [] verify_example empty_db no_faults (Some ''Bearer tok1'') example_handler
       = (empty_db, Response 401 (Message ''User not found''))
   \<and> first_row (filter (\<lambda>u. user_id u = 1) (users db_pending)) = Some bob
   \<and> authenticate [''teacher''] verify_example db_pending no_faults (Some ''Bearer tok1'')
       = Inl (Response 403 (Message ''Insufficient permissions''))
   \<and> guarded [''teacher''] verify_example db_pending no_faults (Some ''Bearer tok1'')
        example_handler
       = (db_pending, Response 403 (Message ''Insufficient permissions''))
   \<and> authenticate [] verify_example db_pending no_faults (Some ''Bearer tok1'') = Inr bob
   \<and> guarded [] verify_example db_pending no_faults (Some ''Bearer tok1'') example_handler
       = (db_pending, Response 200 (NotificationRows []))
   \<and> authenticate [''parent'', ''admin''] verify_example db_pending no_faults
        (Some ''Bearer tok1'') = Inr bob"
proof -
  have t0: "bearer_token None = None"
    by (simp add: bearer_token_def)
  have t1: "bearer_token (Some ''Bearer nope'') = Some ''nope''"
    by (simp add: bearer_token_def)
  have t2: "bearer_token (Some ''Bearer tok1'') = Some ''tok1''"
    by (simp add: bearer_token_def)
  have v: "verify_example ''nope'' = None" "verify_example ''tok1'' = Some 1"
    by (simp_all add: verify_example_def)
  have nf: "\<not> no_faults 0"
    by (simp add: no_faults_def)
  have u: "first_row (filter (\<lambda>u. user_id u = 1) (users db_pending)) = Some bob"
    by (simp add: db_pending_def empty_db_def bob_def)
  have r: "user_type bob = ''parent''"
    by (simp add: bob_def)
  have e: "1 \<notin> user_id ` set (users empty_db)"
    by (simp add: empty_db_def)
  have run: "example_handler (\<lambda>k. no_faults (Suc k)) bob
       = (db_pending, Response 200 (NotificationRows []))"
    by (simp add: example_handler_def get_notifications_def order_by_desc_def example_defs)
  have a0: "guarded [''teacher''] verify_example db_pending no_faults None example_handler
       = (db_pending, Response 401 (Message ''Authentication required''))"
    using guard_outcomes[where h = None and ts = "[''teacher'']" and verify = verify_example
        and d = db_pending and fails = no_faults and handler = example_handler] t0
    by simp
  have a1: "guarded [''teacher''] verify_example db_pending no_faults (Some ''Bearer nope'')
        example_handler
       = (db_pending, Response 401 (Message ''Invalid token''))"
    using guard_outcomes[where h = "Some ''Bearer nope''" and ts = "[''teacher'']"
        and verify = verify_example and d = db_pending and fails = no_faults
        and t = "''nope''" and handler = example_handler] t1 v
    by simp
  have a5: "guarded [] verify_example empty_db no_faults (Some ''Bearer tok1'') example_handler
       = (empty_db, Response 401 (Message ''User not found''))"
    using guard_outcomes[where h = "Some ''Bearer tok1''" and ts = "[]"
        and verify = verify_example and d = empty_db and fails = no_faults
        and t = "''tok1''" and uid = 1 and handler = example_handler] t2 v nf e
    by simp
  have a2: "authenticate [''teacher''] verify_example db_pending no_faults (Some ''Bearer tok1'')
       = Inl (Response 403 (Message ''Insufficient permissions''))
     \<and> guarded [''teacher''] verify_example db_pending no_faults (Some ''Bearer tok1'')
        example_handler
       = (db_pending, Response 403 (Message ''Insufficient permissions''))"
    using guard_outcomes[where h = "Some ''Bearer tok1''" and ts = "[''teacher'']"
        and verify = verify_example and d = db_pending and fails = no_faults
        and t = "''tok1''" and uid = 1 and u = bob and handler = example_handler] t2 v nf u r
    by simp
  have a3: "authenticate [] verify_example db_pending no_faults (Some ''Bearer tok1'') = Inr bob
     \<and> guarded [] verify_example db_pending no_faults (Some ''Bearer tok1'') example_handler
       = (db_pending, Response 200 (NotificationRows []))"
    using guard_outcomes[where h = "Some ''Bearer tok1''" and ts = "[]"
        and verify = verify_example and d = db_pending and fails = no_faults
        and t = "''tok1''" and uid = 1 and u = bob and handler = example_handler] t2 v nf u r run
    by simp
  have a4: "authenticate [''parent'', ''admin''] verify_example db_pending no_faults
        (Some ''Bearer tok1'') = Inr bob"
    using guard_outcomes[where h = "Some ''Bearer tok1''" and ts = "[''parent'', ''admin'']"
        and verify = verify_example and d = db_pending and fails = no_faults
        and t = "''tok1''" and uid = 1 and u = bob and handler = example_handler] t2 v nf u r
    by simp
  from t0 t1 t2 e u a0 a1 a2 a3 a4 a5 show ?thesis
    by blast
qed

section \<open>Account registration: properties\<close>

text \<open>
  C10. Account registration is atomic. An answer other than 201 leaves the database as
  it was. In particular, when the INSERT of the parent or teacher row fails, no answer is
  201 and the database is as it was: the user row written before it is not kept. An
  answer of 201 comes with exactly one new user of the normalized role and, for a parent
  or a teacher, exactly one new detail row carrying the new user's id.
\<close>

theorem register_atomic:
  "(status_code (snd (register_user d now hash fails b)) \<noteq> 201 \<longrightarrow>
      fst (register_user d now hash fails b) = d)
 \<and> (fails 4 \<and> (normalize_user_type (b ''user_type'') = Inr ''parent''
               \<or> normalize_user_type (b ''user_type'') = Inr ''teacher'') \<longrightarrow>
      fst (register_user d now hash fails b) = d
      \<and> status_code (snd (register_user d now hash fails b)) \<noteq> 201)
 \<and> (status_code (snd (register_user d now hash fails b)) = 201 \<longrightarrow>
      (\<exists>ut u. normalize_user_type (b ''user_type'') = Inr ut
         \<and> users (fst (register_user d now hash fails b)) = users d @ [u] \<and> user_type u = ut
         \<and> (ut = ''parent'' \<longrightarrow>
              (\<exists>p. parents (fst (register_user d now hash fails b)) = parents d @ [p]
                 \<and> parent_id p = user_id u))
         \<and> (ut = ''teacher'' \<longrightarrow>
              (\<exists>p. teachers (fst (register_user d now hash fails b)) = teachers d @ [p]
                 \<and> teacher_id p = user_id u))))"
proof -
  consider (same) "fst (register_user d now hash fails b) = d"
      "status_code (snd (register_user d now hash fails b)) \<noteq> 201"
    | (committed) ut hp t where "normalize_user_type (b ''user_type'') = Inr ut"
      "register_transaction d now fails b hp ut = Inr t"
      "register_user d now hash fails b = (t, Response 201 (Message ''User registered successfully''))"
    using register_cases[of d now hash fails b] by blast
  then show ?thesis
  proof cases
    case same
    then show ?thesis by simp
  next
    case committed
    from register_transaction_Inr[OF committed(2)] committed(1,3) show ?thesis
      by (auto split: if_splits)
  qed
qed

theorem register_atomic_witness:
  "role_insert_fails 4 \<and> normalize_user_type (register_body ''user_type'') = Inr ''parent''
   \<and> register_user db_pending 11 hash_example role_insert_fails register_body
       = (db_pending, Response 500 (Failure ''Registration failed'' (StorageError 4)))
   \<and> fst (register_user db_pending 11 hash_example role_insert_fails register_body) = db_pending
   \<and> status_code (snd (register_user db_pending 11 hash_example role_insert_fails register_body))
       \<noteq> 201
   \<and> status_code (snd (register_user db_pending 11 hash_example no_faults register_body)) = 201
   \<and> (\<exists>u p. users (fst (register_user db_pending 11 hash_example no_faults register_body))
                 = users db_pending @ [u]
          \<and> user_type u = ''parent''
          \<and> parents (fst (register_user db_pending 11 hash_example no_faults register_body))
                 = parents db_pending @ [p]
          \<and> parent_id p = user_id u)"
proof -
  have f: "role_insert_fails 4"
    by (simp add: role_insert_fails_def)
  have n: "normalize_user_type (register_body ''user_type'') = Inr ''parent''"
    by code_simp
  have e: "register_user db_pending 11 hash_example role_insert_fails register_body
       = (db_pending, Response 500 (Failure ''Registration failed'' (StorageError 4)))"
    by code_simp
  from register_atomic[of db_pending 11 hash_example role_insert_fails register_body] f n
  have r: "fst (register_user db_pending 11 hash_example role_insert_fails register_body) = db_pending
     \<and> status_code (snd (register_user db_pending 11 hash_example role_insert_fails register_body))
       \<noteq> 201"
    by blast
  have s: "status_code (snd (register_user db_pending 11 hash_example no_faults register_body)) = 201"
    by code_simp
  from register_atomic[of db_pending 11 hash_example no_faults register_body] s n
  have c: "\<exists>u p. users (fst (register_user db_pending 11 hash_example no_faults register_body))
                 = users db_pending @ [u]
          \<and> user_type u = ''parent''
          \<and> parents (fst (register_user db_pending 11 hash_example no_faults register_body))
                 = parents db_pending @ [p]
          \<and> parent_id p = user_id u"
    by auto
  from f n e r s c show ?thesis
    by blast
qed

end
